theory Spec2Isabelle
  imports Complex_Main
begin

section \<open>Value types of the camera interface\<close>

text \<open>
  The dataclasses of \<^verbatim>\<open>Software/Interface/camera_interface.py\<close>. Python floats are
  carried as reals (no operation of the driver computes with them except the timeout
  comparison of \<^verbatim>\<open>read\<close>), optional fields as \<open>option\<close>.
\<close>

record Resolution =
  width :: int
  height :: int

text \<open>
  The image buffer that the native read returns: the driver only looks at its
  \<^verbatim>\<open>shape\<close>; the payload is opaque.
\<close>

record ndarray =
  shape :: "int list"
  payload :: "nat list"

record Frame =
  frame_data :: ndarray
  frame_width :: int
  frame_height :: int
  frame_channels :: int
  frame_pixel_format :: string
  frame_timestamp :: real

record CameraConfig =
  resolution :: Resolution
  framerate :: real
  pixel_format :: string
  rotation_deg :: int
  hflip :: bool
  vflip :: bool
  auto_exposure :: bool
  exposure_time_us :: "int option"
  iso :: "int option"
  auto_white_balance :: bool
  white_balance_gain_r :: "real option"
  white_balance_gain_b :: "real option"
  auto_focus :: bool
  focus_distance_m :: "real option"
  roi_norm :: "(real \<times> real \<times> real \<times> real) option"

text \<open>\<^verbatim>\<open>CameraConfig()\<close>: every field at its declared default.\<close>

definition default_config :: CameraConfig where
  "default_config =
     \<lparr>resolution = \<lparr>width = 1280, height = 720\<rparr>,
      framerate = 30,
      pixel_format = ''BGR'',
      rotation_deg = 0,
      hflip = False,
      vflip = False,
      auto_exposure = True,
      exposure_time_us = None,
      iso = None,
      auto_white_balance = True,
      white_balance_gain_r = None,
      white_balance_gain_b = None,
      auto_focus = True,
      focus_distance_m = None,
      roi_norm = None\<rparr>"

text \<open>
  The dictionary that \<^verbatim>\<open>capabilities\<close> returns, one field per key (the nested
  \<^verbatim>\<open>controls\<close> dictionary flattened).
\<close>

record Capabilities =
  resolutions :: "(int \<times> int) list"
  pixel_formats :: "string list"
  exposure_auto :: bool
  exposure_manual :: bool
  wb_auto :: bool
  wb_manual_gains :: bool
  focus_auto :: bool
  focus_manual_distance :: bool
  roi_supported :: bool

section \<open>Exceptions\<close>

text \<open>
  The three exceptions of the interface (subclasses of \<^verbatim>\<open>CameraError\<close>) and the
  built-in Python exceptions that the driver and the factory can raise.
\<close>

datatype py_error =
    CameraOpenError
  | CameraStateError
  | CameraTimeout
  | ValueError
  | AttributeError
  | ModuleNotFoundError
  | TypeError

text \<open>\<^verbatim>\<open>isinstance(e, CameraError)\<close>: the error kinds of the camera contract itself.\<close>

fun is_camera_error :: "py_error \<Rightarrow> bool" where
  "is_camera_error CameraOpenError = True"
| "is_camera_error CameraStateError = True"
| "is_camera_error CameraTimeout = True"
| "is_camera_error ValueError = False"
| "is_camera_error AttributeError = False"
| "is_camera_error ModuleNotFoundError = False"
| "is_camera_error TypeError = False"

text \<open>A call either returns a value or raises; the object's state after the call is
  kept beside the outcome, since a Python exception does not undo earlier assignments.\<close>

datatype 'a outcome = Returns 'a | Raises py_error

section \<open>The native capture handle\<close>

text \<open>
  \<^verbatim>\<open>cv2.VideoCapture\<close> is an external collaborator. The driver uses five of its
  methods: \<^verbatim>\<open>isOpened\<close>, \<^verbatim>\<open>read\<close>, \<^verbatim>\<open>grab\<close>, \<^verbatim>\<open>set\<close> and \<^verbatim>\<open>release\<close>.
  The handle is modelled by what the driver can observe of it: whether the device was
  acquired, what the k-th retrieval (\<^verbatim>\<open>read\<close> or \<^verbatim>\<open>grab\<close>) yields (\<open>None\<close> stands
  for the pair \<^verbatim>\<open>(False, None)\<close>), how many retrievals were made, and the property
  requests issued with \<^verbatim>\<open>set\<close>, whose boolean result the driver discards.
\<close>

datatype cap_prop = CAP_PROP_FRAME_WIDTH | CAP_PROP_FRAME_HEIGHT | CAP_PROP_FPS

record VideoCapture =
  isOpened :: bool
  feed :: "nat \<Rightarrow> ndarray option"
  cursor :: nat
  requested :: "(cap_prop \<times> real) list"

definition vc_read :: "VideoCapture \<Rightarrow> ndarray option \<times> VideoCapture" where
  "vc_read vc = (feed vc (cursor vc), vc\<lparr>cursor := Suc (cursor vc)\<rparr>)"

definition vc_grab :: "VideoCapture \<Rightarrow> VideoCapture" where
  "vc_grab vc = vc\<lparr>cursor := Suc (cursor vc)\<rparr>"

definition vc_set :: "cap_prop \<Rightarrow> real \<Rightarrow> VideoCapture \<Rightarrow> VideoCapture" where
  "vc_set p v vc = vc\<lparr>requested := requested vc @ [(p, v)]\<rparr>"

section \<open>The OpenCV driver object\<close>

text \<open>
  The attributes of an \<^verbatim>\<open>OpenCVCamera\<close> instance: \<open>capture_handle\<close> is
  \<^verbatim>\<open>_capture\<close>, and \<open>is_open\<close>, \<open>is_streaming\<close>, \<open>current_config\<close> are the
  attributes behind the read-only properties of the same names. The last four fields are
  the environment the object acts on: the monotonic clock (the value of its k-th
  reading and the number of readings taken), the handles on which \<^verbatim>\<open>release\<close> was
  called, and the images handed to \<^verbatim>\<open>cv2.imwrite\<close>. The lock and the display name
  are read by no operation below and are left out; the model is single-threaded.
\<close>

record camera =
  device_index :: int
  capture_handle :: "VideoCapture option"
  is_open :: bool
  is_streaming :: bool
  current_config :: CameraConfig
  clock :: "nat \<Rightarrow> real"
  ticks :: nat
  released :: "VideoCapture list"
  written :: "(string \<times> ndarray) list"

text \<open>\<^verbatim>\<open>OpenCVCamera(device_index)\<close> with the class attributes of the interface.\<close>

definition new_camera :: "(nat \<Rightarrow> real) \<Rightarrow> int \<Rightarrow> camera" where
  "new_camera clk idx =
     \<lparr>device_index = idx,
      capture_handle = None,
      is_open = False,
      is_streaming = False,
      current_config = default_config,
      clock = clk,
      ticks = 0,
      released = [],
      written = []\<rparr>"

text \<open>\<^verbatim>\<open>time.monotonic()\<close>.\<close>

definition monotonic :: "camera \<Rightarrow> real \<times> camera" where
  "monotonic s = (clock s (ticks s), s\<lparr>ticks := Suc (ticks s)\<rparr>)"

subsection \<open>Configuration\<close>

text \<open>
  \<^verbatim>\<open>set_config\<close>: the guard is \<^verbatim>\<open>if not self._capture\<close>, which for a
  \<^verbatim>\<open>VideoCapture\<close> object (always truthy) tests for \<^verbatim>\<open>None\<close> only.
\<close>

definition set_config :: "CameraConfig \<Rightarrow> camera \<Rightarrow> CameraConfig outcome \<times> camera" where
  "set_config config s =
     (case capture_handle s of
        None \<Rightarrow> (Raises CameraStateError, s)
      | Some vc \<Rightarrow>
          let vc1 = vc_set CAP_PROP_FRAME_WIDTH (of_int (width (resolution config))) vc;
              vc2 = vc_set CAP_PROP_FRAME_HEIGHT (of_int (height (resolution config))) vc1;
              vc3 = vc_set CAP_PROP_FPS (framerate config) vc2;
              s1 = s\<lparr>capture_handle := Some vc3\<rparr>;
              s2 = s1\<lparr>current_config := config\<rparr>
          in (Returns (current_config s2), s2))"

definition capabilities :: "camera \<Rightarrow> Capabilities outcome \<times> camera" where
  "capabilities s =
     (case capture_handle s of
        None \<Rightarrow> (Raises CameraStateError, s)
      | Some vc \<Rightarrow>
          (Returns
             \<lparr>resolutions = [(640, 480), (1280, 720), (1920, 1080)],
              pixel_formats = [''BGR''],
              exposure_auto = True,
              exposure_manual = False,
              wb_auto = True,
              wb_manual_gains = False,
              focus_auto = False,
              focus_manual_distance = False,
              roi_supported = False\<rparr>, s))"

subsection \<open>Lifecycle\<close>

text \<open>
  \<^verbatim>\<open>open\<close>: the first argument is the object that
  \<^verbatim>\<open>cv2.VideoCapture(self._device_index, cv2.CAP_V4L2)\<close> constructs, which is the
  environment's answer to the call. It is assigned to \<^verbatim>\<open>_capture\<close> before
  \<^verbatim>\<open>isOpened\<close> is tested.
\<close>

definition open_camera ::
    "VideoCapture \<Rightarrow> CameraConfig option \<Rightarrow> camera \<Rightarrow> unit outcome \<times> camera" where
  "open_camera vc config s =
     (if is_open s then (Returns (), s)
      else
        let s1 = s\<lparr>capture_handle := Some vc\<rparr> in
        if \<not> isOpened vc then (Raises CameraOpenError, s1)
        else
          let s2 = s1\<lparr>is_open := True\<rparr> in
          (case config of
             Some cfg \<Rightarrow>
               (case set_config cfg s2 of
                  (Returns applied, s3) \<Rightarrow> (Returns (), s3)
                | (Raises e, s3) \<Rightarrow> (Raises e, s3))
           | None \<Rightarrow> (Returns (), s2\<lparr>current_config := default_config\<rparr>)))"

definition close :: "camera \<Rightarrow> unit outcome \<times> camera" where
  "close s =
     (let s1 = (case capture_handle s of
                  Some vc \<Rightarrow> s\<lparr>released := released s @ [vc], capture_handle := None\<rparr>
                | None \<Rightarrow> s);
          s2 = s1\<lparr>is_open := False\<rparr>;
          s3 = s2\<lparr>is_streaming := False\<rparr>
      in (Returns (), s3))"

definition start_stream :: "camera \<Rightarrow> unit outcome \<times> camera" where
  "start_stream s =
     (if \<not> is_open s then (Raises CameraStateError, s)
      else (Returns (), s\<lparr>is_streaming := True\<rparr>))"

definition stop_stream :: "camera \<Rightarrow> unit outcome \<times> camera" where
  "stop_stream s = (Returns (), s\<lparr>is_streaming := False\<rparr>)"

subsection \<open>Frame acquisition\<close>

text \<open>
  The statements \<^verbatim>\<open>h, w, c = frame.shape\<close> and \<^verbatim>\<open>Frame(...)\<close>, which \<^verbatim>\<open>read\<close>
  and \<^verbatim>\<open>capture\<close> both contain: unpacking a tuple of any other length than three
  raises \<^verbatim>\<open>ValueError\<close>, before the clock is read for the timestamp.
\<close>

definition frame_of :: "ndarray \<Rightarrow> camera \<Rightarrow> Frame outcome \<times> camera" where
  "frame_of frame s =
     (case shape frame of
        [h, w, c] \<Rightarrow>
          let (now, s1) = monotonic s
          in (Returns \<lparr>frame_data = frame, frame_width = w, frame_height = h,
                       frame_channels = c, frame_pixel_format = ''BGR'',
                       frame_timestamp = now\<rparr>, s1)
      | _ \<Rightarrow> (Raises ValueError, s))"

text \<open>
  One pass through the body of the \<^verbatim>\<open>while True\<close> loop of \<^verbatim>\<open>read\<close>: \<open>Inl\<close> when
  the pass leaves the function (a frame, or an exception), \<open>Inr\<close> when the loop goes
  round again. With \<^verbatim>\<open>timeout is None\<close> the clock is not read.
\<close>

definition read_body ::
    "real option \<Rightarrow> real \<Rightarrow> camera \<Rightarrow> (Frame outcome \<times> camera) + camera" where
  "read_body timeout start_time s =
     (case capture_handle s of
        None \<Rightarrow> Inl (Raises AttributeError, s)
      | Some vc \<Rightarrow>
          let (r, vc1) = vc_read vc;
              s1 = s\<lparr>capture_handle := Some vc1\<rparr>
          in (case r of
                Some frame \<Rightarrow> Inl (frame_of frame s1)
              | None \<Rightarrow>
                  (case timeout of
                     None \<Rightarrow> Inr s1
                   | Some t \<Rightarrow>
                       let (now, s2) = monotonic s1
                       in if now - start_time > t then Inl (Raises CameraTimeout, s2)
                          else Inr s2)))"

text \<open>The loop itself; \<open>None\<close> is the call that never returns.\<close>

partial_function (option) read_loop ::
    "real option \<Rightarrow> real \<Rightarrow> camera \<Rightarrow> (Frame outcome \<times> camera) option" where
  "read_loop timeout start_time s =
     (case read_body timeout start_time s of
        Inl r \<Rightarrow> Some r
      | Inr s1 \<Rightarrow> read_loop timeout start_time s1)"

definition read :: "real option \<Rightarrow> camera \<Rightarrow> (Frame outcome \<times> camera) option" where
  "read timeout s =
     (if \<not> is_streaming s \<or> capture_handle s = None then Some (Raises CameraStateError, s)
      else
        let (start_time, s1) = monotonic s
        in read_loop timeout start_time s1)"

text \<open>\<^verbatim>\<open>read()\<close> with the argument left out: the parameter's default is \<^verbatim>\<open>2.0\<close>.\<close>

definition read_default :: "camera \<Rightarrow> (Frame outcome \<times> camera) option" where
  "read_default s = read (Some 2) s"

text \<open>The first \<open>n\<close> passes of the loop, for statements about a call still running.\<close>

primrec read_passes ::
    "nat \<Rightarrow> real option \<Rightarrow> real \<Rightarrow> camera \<Rightarrow> (Frame outcome \<times> camera) + camera" where
  "read_passes 0 timeout start_time s = Inr s"
| "read_passes (Suc n) timeout start_time s =
     (case read_body timeout start_time s of
        Inl r \<Rightarrow> Inl r
      | Inr s1 \<Rightarrow> read_passes n timeout start_time s1)"

definition flush :: "camera \<Rightarrow> unit outcome \<times> camera" where
  "flush s =
     (case capture_handle s of
        None \<Rightarrow> (Returns (), s)
      | Some vc \<Rightarrow> (Returns (), s\<lparr>capture_handle := Some ((vc_grab ^^ 5) vc)\<rparr>))"

text \<open>
  \<^verbatim>\<open>capture\<close>: \<^verbatim>\<open>if path:\<close> is false for \<^verbatim>\<open>None\<close> and for the empty string.
\<close>

definition capture :: "string option \<Rightarrow> camera \<Rightarrow> Frame outcome \<times> camera" where
  "capture path s =
     (if \<not> is_open s then (Raises CameraStateError, s)
      else
        (case capture_handle s of
           None \<Rightarrow> (Raises CameraStateError, s)
         | Some vc \<Rightarrow>
             let (r, vc1) = vc_read vc;
                 s1 = s\<lparr>capture_handle := Some vc1\<rparr>
             in (case r of
                   None \<Rightarrow> (Raises CameraTimeout, s1)
                 | Some frame \<Rightarrow>
                     (case frame_of frame s1 of
                        (Raises e, s2) \<Rightarrow> (Raises e, s2)
                      | (Returns f, s2) \<Rightarrow>
                          (case path of
                             None \<Rightarrow> (Returns f, s2)
                           | Some p \<Rightarrow>
                               if p = [] then (Returns f, s2)
                               else (Returns f, s2\<lparr>written := written s2 @ [(p, frame)]\<rparr>))))))"

subsection \<open>The three lifecycle states\<close>

text \<open>
  The state of the contract's state machine, read off the two flags of the object.
\<close>

datatype lifecycle = Closed | OpenIdle | OpenStreaming

definition lifecycle_of :: "camera \<Rightarrow> lifecycle" where
  "lifecycle_of s =
     (if is_open s then (if is_streaming s then OpenStreaming else OpenIdle) else Closed)"

text \<open>\<^verbatim>\<open>close()\<close> called \<open>n\<close> times in a row; an exception would end the sequence.\<close>

primrec close_times :: "nat \<Rightarrow> camera \<Rightarrow> unit outcome \<times> camera" where
  "close_times 0 s = (Returns (), s)"
| "close_times (Suc n) s =
     (case close s of
        (Raises e, s1) \<Rightarrow> (Raises e, s1)
      | (Returns u, s1) \<Rightarrow> close_times n s1)"

text \<open>
  The states a driver object can be in: a fresh object, and whatever a call of one of
  its methods leaves behind, whether the call returned or raised. The convenience
  setters, \<^verbatim>\<open>frames\<close> and the context manager of the interface are compositions of
  these calls.
\<close>

inductive reachable :: "camera \<Rightarrow> bool" where
  reach_new: "reachable (new_camera clk idx)"
| reach_open: "reachable s \<Longrightarrow> reachable (snd (open_camera vc config s))"
| reach_close: "reachable s \<Longrightarrow> reachable (snd (close s))"
| reach_start: "reachable s \<Longrightarrow> reachable (snd (start_stream s))"
| reach_stop: "reachable s \<Longrightarrow> reachable (snd (stop_stream s))"
| reach_read: "reachable s \<Longrightarrow> read timeout s = Some (r, s1) \<Longrightarrow> reachable s1"
| reach_flush: "reachable s \<Longrightarrow> reachable (snd (flush s))"
| reach_capture: "reachable s \<Longrightarrow> reachable (snd (capture path s))"
| reach_set_config: "reachable s \<Longrightarrow> reachable (snd (set_config config s))"

text \<open>The number of retrievals made on the object's handle so far.\<close>

definition retrievals :: "camera \<Rightarrow> nat" where
  "retrievals s = (case capture_handle s of None \<Rightarrow> 0 | Some vc \<Rightarrow> cursor vc)"

text \<open>A source that never produces a frame: every retrieval from now on fails.\<close>

definition silent :: "camera \<Rightarrow> bool" where
  "silent s =
     (case capture_handle s of
        None \<Rightarrow> False
      | Some vc \<Rightarrow> (\<forall>k\<ge>cursor vc. feed vc k = None))"




section \<open>The factory\<close>

text \<open>
  \<^verbatim>\<open>Software/Config/camera_factory.py\<close>. The two module constants, and
  \<^verbatim>\<open>CameraFactory.create\<close> with the constant \<^verbatim>\<open>ACTIVE_CAMERA_DRIVER\<close> and the
  importable modules as parameters: a module is a map from attribute names to classes,
  a class is its constructor applied to the keyword arguments, and an object is either
  an instance of a \<^verbatim>\<open>CameraInterface\<close> subclass or anything else.
\<close>

record hardware_config =
  hw_device_index :: int
  default_resolution :: "int \<times> int"
  default_framerate :: real

definition CAMERA_HARDWARE_CONFIG :: hardware_config where
  "CAMERA_HARDWARE_CONFIG =
     \<lparr>hw_device_index = 0, default_resolution = (640, 480), default_framerate = 30\<rparr>"

definition ACTIVE_CAMERA_DRIVER :: string where
  "ACTIVE_CAMERA_DRIVER = ''Software.Drivers.opencv_camera.OpenCVCamera''"

datatype py_object = CameraInstance camera | OtherInstance string

type_synonym py_class = "hardware_config \<Rightarrow> py_object outcome"
type_synonym py_module = "string \<rightharpoonup> py_class"
type_synonym import_env = "string \<rightharpoonup> py_module"

fun isinstance_CameraInterface :: "py_object \<Rightarrow> bool" where
  "isinstance_CameraInterface (CameraInstance c) = True"
| "isinstance_CameraInterface (OtherInstance d) = False"

text \<open>\<^verbatim>\<open>key.rsplit(".", 1)\<close>: split at the last dot; without a dot, the key alone.\<close>

definition rsplit_dot :: "string \<Rightarrow> string list" where
  "rsplit_dot key =
     (if CHR ''.'' \<in> set key
      then [rev (tl (dropWhile (\<lambda>c. c \<noteq> CHR ''.'') (rev key))),
            rev (takeWhile (\<lambda>c. c \<noteq> CHR ''.'') (rev key))]
      else [key])"

text \<open>
  \<^verbatim>\<open>create\<close>: unpacking the split into two names raises \<^verbatim>\<open>ValueError\<close> when
  there is one only, \<^verbatim>\<open>import_module\<close> raises \<^verbatim>\<open>ValueError\<close> on the empty name
  and \<^verbatim>\<open>ModuleNotFoundError\<close> on a module that is not there, \<^verbatim>\<open>getattr\<close> raises
  \<^verbatim>\<open>AttributeError\<close>. The second component lists the objects constructed on the way.
\<close>

definition create_from ::
    "string \<Rightarrow> import_env \<Rightarrow> py_object outcome \<times> py_object list" where
  "create_from key env =
     (case rsplit_dot key of
        [module_path, class_name] \<Rightarrow>
          if module_path = [] then (Raises ValueError, [])
          else
            (case env module_path of
               None \<Rightarrow> (Raises ModuleNotFoundError, [])
             | Some module_obj \<Rightarrow>
                 (case module_obj class_name of
                    None \<Rightarrow> (Raises AttributeError, [])
                  | Some driver_class \<Rightarrow>
                      (case driver_class CAMERA_HARDWARE_CONFIG of
                         Raises e \<Rightarrow> (Raises e, [])
                       | Returns camera \<Rightarrow>
                           if \<not> isinstance_CameraInterface camera
                           then (Raises TypeError, [camera])
                           else (Returns camera, [camera]))))
      | _ \<Rightarrow> (Raises ValueError, []))"

text \<open>The class a key resolves to, if the module and the attribute both exist.\<close>

definition resolve :: "string \<Rightarrow> import_env \<Rightarrow> py_class option" where
  "resolve key env =
     (case rsplit_dot key of
        [module_path, class_name] \<Rightarrow>
          if module_path = [] then None
          else (case env module_path of None \<Rightarrow> None | Some module_obj \<Rightarrow> module_obj class_name)
      | _ \<Rightarrow> None)"

text \<open>
  The one driver module of the repository, with its class: the constructor keeps
  \<^verbatim>\<open>device_index\<close> and ignores the other keyword arguments.
\<close>

definition OpenCVCamera_class :: "(nat \<Rightarrow> real) \<Rightarrow> py_class" where
  "OpenCVCamera_class clk hw = Returns (CameraInstance (new_camera clk (hw_device_index hw)))"

definition repo_modules :: "(nat \<Rightarrow> real) \<Rightarrow> import_env" where
  "repo_modules clk =
     [''Software.Drivers.opencv_camera'' \<mapsto> [''OpenCVCamera'' \<mapsto> OpenCVCamera_class clk]]"

definition create :: "(nat \<Rightarrow> real) \<Rightarrow> py_object outcome \<times> py_object list" where
  "create clk = create_from ACTIVE_CAMERA_DRIVER (repo_modules clk)"

section \<open>Concrete devices and requests\<close>

definition no_frames :: "nat \<Rightarrow> ndarray option" where
  "no_frames k = None"

definition bgr_image :: ndarray where
  "bgr_image = \<lparr>shape = [480, 640, 3], payload = []\<rparr>"


definition bgr_frames :: "nat \<Rightarrow> ndarray option" where
  "bgr_frames k = Some bgr_image"



text \<open>A clock that advances three seconds between two readings.\<close>

definition slow_clock :: "nat \<Rightarrow> real" where
  "slow_clock k = 3 * real k"

text \<open>A handle whose device could not be acquired, and handles that could.\<close>

definition dead_handle :: VideoCapture where
  "dead_handle = \<lparr>isOpened = False, feed = no_frames, cursor = 0, requested = []\<rparr>"

definition stalled_handle :: VideoCapture where
  "stalled_handle = \<lparr>isOpened = True, feed = no_frames, cursor = 0, requested = []\<rparr>"

definition live_handle :: VideoCapture where
  "live_handle = \<lparr>isOpened = True, feed = bgr_frames, cursor = 0, requested = []\<rparr>"



definition fresh_camera :: camera where
  "fresh_camera = new_camera slow_clock 0"

text \<open>The object after an \<^verbatim>\<open>open()\<close> that could not acquire the device.\<close>

definition failed_open_camera :: camera where
  "failed_open_camera = snd (open_camera dead_handle None fresh_camera)"

text \<open>Objects opened on a device, idle and streaming.\<close>

definition opened_camera :: "VideoCapture \<Rightarrow> camera" where
  "opened_camera vc = snd (open_camera vc None fresh_camera)"

definition streaming_camera :: "VideoCapture \<Rightarrow> camera" where
  "streaming_camera vc = snd (start_stream (opened_camera vc))"

text \<open>A request for a resolution, a rotation, manual exposure and a region of interest.\<close>

definition roi_request :: CameraConfig where
  "roi_request =
     default_config
       \<lparr>resolution := \<lparr>width = 640, height = 480\<rparr>,
        rotation_deg := 90,
        auto_exposure := False,
        exposure_time_us := Some 1000,
        roi_norm := Some (1/4, 1/4, 1/2, 1/2)\<rparr>"

text \<open>
  A key naming a driver module that is not importable here, and an importable module
  whose class does not derive from \<^verbatim>\<open>CameraInterface\<close>.
\<close>

definition mock_key :: string where
  "mock_key = ''Software.Drivers.mock_camera.MockCamera''"

definition Recorder_class :: py_class where
  "Recorder_class hw = Returns (OtherInstance ''Recorder'')"

definition other_modules :: import_env where
  "other_modules = [''tools.recorder'' \<mapsto> [''Recorder'' \<mapsto> Recorder_class]]"

definition recorder_key :: string where
  "recorder_key = ''tools.recorder.Recorder''"

text \<open>What \<^verbatim>\<open>capabilities\<close> reports on any object that holds a handle.\<close>

definition reported_capabilities :: Capabilities where
  "reported_capabilities =
     \<lparr>resolutions = [(640, 480), (1280, 720), (1920, 1080)],
      pixel_formats = [''BGR''],
      exposure_auto = True,
      exposure_manual = False,
      wb_auto = True,
      wb_manual_gains = False,
      focus_auto = False,
      focus_manual_distance = False,
      roi_supported = False\<rparr>"

section \<open>Facts about the concrete devices\<close>

lemma opened_camera_eq:
  "isOpened vc \<Longrightarrow>
     opened_camera vc =
       fresh_camera\<lparr>capture_handle := Some vc, is_open := True, current_config := default_config\<rparr>"
  by (simp add: opened_camera_def open_camera_def fresh_camera_def new_camera_def Let_def)

lemma streaming_camera_eq:
  "isOpened vc \<Longrightarrow>
     streaming_camera vc =
       fresh_camera\<lparr>capture_handle := Some vc, is_open := True,
                     current_config := default_config, is_streaming := True\<rparr>"
  by (simp add: streaming_camera_def start_stream_def opened_camera_eq fresh_camera_def
      new_camera_def)

lemma failed_open_raises:
  "open_camera dead_handle None fresh_camera = (Raises CameraOpenError, failed_open_camera)"
  by (simp add: failed_open_camera_def open_camera_def fresh_camera_def new_camera_def
      dead_handle_def Let_def)

lemma failed_open_camera_eq:
  "failed_open_camera = fresh_camera\<lparr>capture_handle := Some dead_handle\<rparr>"
  by (simp add: failed_open_camera_def open_camera_def fresh_camera_def new_camera_def
      dead_handle_def Let_def)

lemma rsplit_mock: "rsplit_dot mock_key = [''Software.Drivers.mock_camera'', ''MockCamera'']"
  by (simp add: rsplit_dot_def mock_key_def)

lemma rsplit_active:
  "rsplit_dot ACTIVE_CAMERA_DRIVER = [''Software.Drivers.opencv_camera'', ''OpenCVCamera'']"
  by (simp add: rsplit_dot_def ACTIVE_CAMERA_DRIVER_def)

lemma rsplit_recorder: "rsplit_dot recorder_key = [''tools.recorder'', ''Recorder'']"
  by (simp add: rsplit_dot_def recorder_key_def)

section \<open>Configuration reconciliation\<close>

text \<open>
  Claim C5. Whenever \<^verbatim>\<open>set_config(req)\<close> returns \<open>applied\<close>, the object's
  \<open>current_config\<close> is \<open>applied\<close>, and a second call \<^verbatim>\<open>set_config(applied)\<close>
  on the resulting object returns \<open>applied\<close> again and leaves \<open>current_config\<close> at
  \<open>applied\<close>: one application reaches the fixed point.
\<close>

theorem set_config_fixed_point:
  "set_config req s = (Returns applied, s1) \<Longrightarrow>
     current_config s1 = applied \<and>
     (\<exists>s2. set_config applied s1 = (Returns applied, s2) \<and> current_config s2 = applied)"
  by (auto simp: set_config_def Let_def split: option.splits)

theorem set_config_fixed_point_witness:
  "set_config roi_request (opened_camera live_handle) =
     (Returns roi_request, snd (set_config roi_request (opened_camera live_handle))) \<and>
   current_config (snd (set_config roi_request (opened_camera live_handle))) = roi_request \<and>
   fst (set_config roi_request (snd (set_config roi_request (opened_camera live_handle)))) =
     Returns roi_request"
proof -
  have h: "set_config roi_request (opened_camera live_handle) =
     (Returns roi_request, snd (set_config roi_request (opened_camera live_handle)))"
    by (simp add: set_config_def Let_def opened_camera_eq live_handle_def)
  from set_config_fixed_point [OF h] h show ?thesis by auto
qed

text \<open>
  Claim C1, on an open driver and a request for a 640x480 image rotated by 90 degrees
  with manual exposure and a region of interest. The driver reports that it supports
  neither manual exposure nor a region of interest, and it passes only width, height
  and frame rate on to the native handle; yet \<^verbatim>\<open>set_config\<close> returns the request
  itself, with the rotation, the exposure time and the region it did not apply.
\<close>

theorem set_config_echoes_unsupported_fields:
  "fst (capabilities (opened_camera live_handle)) = Returns reported_capabilities \<and>
   \<not> roi_supported reported_capabilities \<and>
   \<not> exposure_manual reported_capabilities \<and>
   roi_norm roi_request = Some (1/4, 1/4, 1/2, 1/2) \<and>
   exposure_time_us roi_request = Some 1000 \<and>
   rotation_deg roi_request = 90 \<and>
   fst (set_config roi_request (opened_camera live_handle)) = Returns roi_request \<and>
   capture_handle (snd (set_config roi_request (opened_camera live_handle))) =
     Some (live_handle\<lparr>requested :=
       [(CAP_PROP_FRAME_WIDTH, 640), (CAP_PROP_FRAME_HEIGHT, 480), (CAP_PROP_FPS, 30)]\<rparr>)"
proof -
  have a: "fst (capabilities (opened_camera live_handle)) = Returns reported_capabilities"
    by (simp add: capabilities_def opened_camera_eq live_handle_def reported_capabilities_def)
  have b: "\<not> roi_supported reported_capabilities" "\<not> exposure_manual reported_capabilities"
    by (simp_all add: reported_capabilities_def)
  have c: "roi_norm roi_request = Some (1/4, 1/4, 1/2, 1/2)"
    "exposure_time_us roi_request = Some 1000" "rotation_deg roi_request = 90"
    by (simp_all add: roi_request_def)
  have d: "fst (set_config roi_request (opened_camera live_handle)) = Returns roi_request"
    by (simp add: set_config_def Let_def opened_camera_eq live_handle_def)
  have e: "capture_handle (snd (set_config roi_request (opened_camera live_handle))) =
     Some (live_handle\<lparr>requested :=
       [(CAP_PROP_FRAME_WIDTH, 640), (CAP_PROP_FRAME_HEIGHT, 480), (CAP_PROP_FPS, 30)]\<rparr>)"
    by (simp add: set_config_def Let_def opened_camera_eq live_handle_def vc_set_def
        roi_request_def default_config_def)
  show ?thesis by (intro conjI a b c d e)
qed

text \<open>
  With a handle, whatever its state, \<^verbatim>\<open>set_config\<close> returns the request it was
  given; without a handle it raises the state error and changes nothing.
\<close>

lemma set_config_returns_request:
  "capture_handle s = Some vc \<Longrightarrow> fst (set_config config s) = Returns config"
  by (simp add: set_config_def Let_def)

lemma set_config_without_handle:
  "capture_handle s = None \<Longrightarrow> set_config config s = (Raises CameraStateError, s)"
  by (simp add: set_config_def)

text \<open>
  Claim C3, on a fresh driver whose \<^verbatim>\<open>open()\<close> could not acquire the device.
  \<^verbatim>\<open>open\<close> raises the open error and the object is not open, but it keeps the
  handle that failed; \<^verbatim>\<open>set_config\<close> tests for the handle alone, so it raises
  nothing, returns the request and replaces \<open>current_config\<close>.
\<close>

theorem set_config_after_failed_open:
  "open_camera dead_handle None fresh_camera = (Raises CameraOpenError, failed_open_camera) \<and>
   \<not> is_open failed_open_camera \<and>
   current_config failed_open_camera = default_config \<and>
   roi_request \<noteq> default_config \<and>
   fst (set_config roi_request failed_open_camera) = Returns roi_request \<and>
   current_config (snd (set_config roi_request failed_open_camera)) = roi_request"
proof -
  have b: "\<not> is_open failed_open_camera" "current_config failed_open_camera = default_config"
    by (simp_all add: failed_open_camera_eq fresh_camera_def new_camera_def)
  have "rotation_deg roi_request \<noteq> rotation_deg default_config"
    by (simp add: roi_request_def default_config_def)
  then have c: "roi_request \<noteq> default_config" by auto
  have d: "fst (set_config roi_request failed_open_camera) = Returns roi_request"
    "current_config (snd (set_config roi_request failed_open_camera)) = roi_request"
    by (simp_all add: set_config_def Let_def failed_open_camera_eq)
  show ?thesis by (intro conjI failed_open_raises b c d)
qed

section \<open>Lifecycle transitions\<close>

text \<open>
  Claim C9. \<^verbatim>\<open>stop_stream\<close> returns normally from every state of the object, open
  or not, streaming or not; the only change is that the streaming flag is false, so an
  open object ends idle and a closed one stays closed.
\<close>

theorem stop_stream_total:
  "stop_stream s = (Returns (), s\<lparr>is_streaming := False\<rparr>) \<and>
   lifecycle_of (snd (stop_stream s)) = (if is_open s then OpenIdle else Closed)"
  by (simp add: stop_stream_def lifecycle_of_def)

lemma close_again: "close (snd (close s)) = (Returns (), snd (close s))"
  by (simp add: close_def split: option.splits)

lemma close_times_closed: "close_times n (snd (close s)) = (Returns (), snd (close s))"
  by (induction n) (simp_all add: close_again)

text \<open>
  Claim C6. From any state of the object, one or more consecutive calls of
  \<^verbatim>\<open>close\<close> raise nothing and have the effect of a single call: the object is in
  state \<open>Closed\<close>, it holds no handle, the streaming flag is cleared, \<^verbatim>\<open>release\<close>
  was called on the handle it held (and on nothing else), and a further call changes
  nothing.
\<close>

theorem close_idempotent:
  "close_times (Suc n) s = close s \<and>
   fst (close s) = Returns () \<and>
   lifecycle_of (snd (close s)) = Closed \<and>
   capture_handle (snd (close s)) = None \<and>
   \<not> is_open (snd (close s)) \<and>
   \<not> is_streaming (snd (close s)) \<and>
   released (snd (close s)) =
     released s @ (case capture_handle s of None \<Rightarrow> [] | Some vc \<Rightarrow> [vc]) \<and>
   close (snd (close s)) = (Returns (), snd (close s))"
proof -
  have ret: "close s = (Returns (), snd (close s))"
    by (simp add: close_def)
  have "close_times (Suc n) s = close_times n (snd (close s))"
    by (simp add: close_def)
  then have a: "close_times (Suc n) s = close s"
    using close_times_closed [of n s] ret by simp
  have b: "lifecycle_of (snd (close s)) = Closed" "capture_handle (snd (close s)) = None"
     "\<not> is_open (snd (close s))" "\<not> is_streaming (snd (close s))"
    by (simp_all add: close_def lifecycle_of_def split: option.splits)
  have c: "released (snd (close s)) =
     released s @ (case capture_handle s of None \<Rightarrow> [] | Some vc \<Rightarrow> [vc])"
    by (simp add: close_def split: option.splits)
  have d: "fst (close s) = Returns ()"
    by (simp add: close_def)
  from a b c d close_again [of s] show ?thesis by blast
qed

text \<open>
  Claim C4, on a fresh driver whose \<^verbatim>\<open>open()\<close> could not acquire the device.
  \<^verbatim>\<open>open\<close> raises the open error and the object stays \<open>Closed\<close>, and
  \<^verbatim>\<open>capture\<close> raises the state error as on the fresh object. But the object now
  holds the handle that failed, and the operations that test for the handle alone no
  longer behave as on the fresh object: \<^verbatim>\<open>capabilities\<close> returns the dictionary
  instead of raising the state error, and \<^verbatim>\<open>flush\<close> makes five retrievals on the
  handle instead of doing nothing.
\<close>

theorem failed_open_leaves_handle:
  "open_camera dead_handle None fresh_camera = (Raises CameraOpenError, failed_open_camera) \<and>
   lifecycle_of fresh_camera = Closed \<and>
   lifecycle_of failed_open_camera = Closed \<and>
   capture_handle fresh_camera = None \<and>
   capture_handle failed_open_camera = Some dead_handle \<and>
   capabilities fresh_camera = (Raises CameraStateError, fresh_camera) \<and>
   capabilities failed_open_camera = (Returns reported_capabilities, failed_open_camera) \<and>
   flush fresh_camera = (Returns (), fresh_camera) \<and>
   flush failed_open_camera =
     (Returns (), failed_open_camera\<lparr>capture_handle := Some (dead_handle\<lparr>cursor := 5\<rparr>)\<rparr>) \<and>
   capture None fresh_camera = (Raises CameraStateError, fresh_camera) \<and>
   capture None failed_open_camera = (Raises CameraStateError, failed_open_camera)"
proof -
  have b: "lifecycle_of fresh_camera = Closed" "lifecycle_of failed_open_camera = Closed"
    "capture_handle fresh_camera = None" "capture_handle failed_open_camera = Some dead_handle"
    by (simp_all add: lifecycle_of_def failed_open_camera_eq fresh_camera_def new_camera_def)
  have c: "capabilities fresh_camera = (Raises CameraStateError, fresh_camera)"
    "capabilities failed_open_camera = (Returns reported_capabilities, failed_open_camera)"
    by (simp_all add: capabilities_def b reported_capabilities_def)
  have g: "(vc_grab ^^ 5) dead_handle = dead_handle\<lparr>cursor := 5\<rparr>"
    by (simp add: numeral_eq_Suc vc_grab_def dead_handle_def)
  have d: "flush fresh_camera = (Returns (), fresh_camera)"
    "flush failed_open_camera =
     (Returns (), failed_open_camera\<lparr>capture_handle := Some (dead_handle\<lparr>cursor := 5\<rparr>)\<rparr>)"
    by (simp_all add: flush_def b g)
  have e: "capture None fresh_camera = (Raises CameraStateError, fresh_camera)"
    "capture None failed_open_camera = (Raises CameraStateError, failed_open_camera)"
    by (simp_all add: capture_def failed_open_camera_eq fresh_camera_def new_camera_def)
  show ?thesis by (intro conjI failed_open_raises b c d e)
qed

section \<open>Frame acquisition\<close>

subsection \<open>The flags are not touched by reading\<close>

lemma frame_of_flags:
  "is_open (snd (frame_of a s)) = is_open s \<and> is_streaming (snd (frame_of a s)) = is_streaming s"
  by (simp add: frame_of_def monotonic_def split: list.splits)

lemma read_body_flags_Inl:
  "read_body t st s = Inl y \<Longrightarrow> is_open (snd y) = is_open s \<and> is_streaming (snd y) = is_streaming s"
  using frame_of_flags
  by (auto simp: read_body_def vc_read_def monotonic_def Let_def split: option.splits if_splits)

lemma read_body_flags_Inr:
  "read_body t st s = Inr s1 \<Longrightarrow> is_open s1 = is_open s \<and> is_streaming s1 = is_streaming s"
  by (auto simp: read_body_def vc_read_def monotonic_def Let_def split: option.splits if_splits)

lemma read_loop_flags:
  assumes "read_loop t st s = Some y"
  shows "is_open (snd y) = is_open s \<and> is_streaming (snd y) = is_streaming s"
proof (rule read_loop.raw_induct
    [where P = "\<lambda>t st s y. is_open (snd y) = is_open s \<and> is_streaming (snd y) = is_streaming s",
     OF _ assms])
  fix f t st s y
  assume IH: "\<And>t st s y. f t st s = Some y \<Longrightarrow>
                is_open (snd y) = is_open s \<and> is_streaming (snd y) = is_streaming s"
    and step: "(case read_body t st s of Inl r \<Rightarrow> Some r | Inr s1 \<Rightarrow> f t st s1) = Some y"
  show "is_open (snd y) = is_open s \<and> is_streaming (snd y) = is_streaming s"
  proof (cases "read_body t st s")
    case (Inl r)
    with step have "r = y" by simp
    with Inl read_body_flags_Inl show ?thesis by blast
  next
    case (Inr s1)
    with step have "f t st s1 = Some y" by simp
    from IH[OF this] read_body_flags_Inr[OF Inr] show ?thesis by simp
  qed
qed

lemma read_flags:
  assumes "read t s = Some (r, s1)"
  shows "is_open s1 = is_open s \<and> is_streaming s1 = is_streaming s"
proof (cases "\<not> is_streaming s \<or> capture_handle s = None")
  case True
  with assms show ?thesis by (simp add: read_def)
next
  case False
  with assms have "read_loop t (fst (monotonic s)) (snd (monotonic s)) = Some (r, s1)"
    by (auto simp: read_def split_beta)
  from read_loop_flags[OF this] show ?thesis by (simp add: monotonic_def)
qed

lemma reachable_streaming_is_open: "reachable s \<Longrightarrow> is_streaming s \<longrightarrow> is_open s"
proof (induction rule: reachable.induct)
  case (reach_new clk idx)
  show ?case by (simp add: new_camera_def)
next
  case (reach_open s vc config)
  then show ?case
    by (auto simp: open_camera_def set_config_def Let_def split: option.splits)
next
  case (reach_close s)
  show ?case by (simp add: close_def)
next
  case (reach_start s)
  then show ?case by (auto simp: start_stream_def)
next
  case (reach_stop s)
  show ?case by (simp add: stop_stream_def)
next
  case (reach_read s timeout r s1)
  with read_flags show ?case by blast
next
  case (reach_flush s)
  then show ?case by (simp add: flush_def split: option.splits)
next
  case (reach_capture s path)
  then show ?case
    using frame_of_flags
    by (auto simp: capture_def vc_read_def split_beta Let_def split: option.splits outcome.splits prod.splits)
next
  case (reach_set_config s config)
  then show ?case by (simp add: set_config_def Let_def split: option.splits)
qed

text \<open>
  Claim C7. On every reachable driver object that is not in state \<open>OpenStreaming\<close>
  (closed, or open and idle), \<^verbatim>\<open>read\<close> returns at once by raising the state error,
  whatever the timeout: the object is left exactly as it was, so no retrieval was made
  on the handle and the clock was not read, and the error is not the timeout.
\<close>

theorem read_outside_streaming_is_state_error:
  assumes "reachable s" and "lifecycle_of s \<noteq> OpenStreaming"
  shows "read timeout s = Some (Raises CameraStateError, s)"
proof -
  from assms(2) have "\<not> (is_open s \<and> is_streaming s)"
    by (simp add: lifecycle_of_def split: if_splits)
  with reachable_streaming_is_open[OF assms(1)] have "\<not> is_streaming s" by blast
  then show ?thesis by (simp add: read_def)
qed

theorem read_outside_streaming_is_state_error_witness:
  "reachable fresh_camera \<and> lifecycle_of fresh_camera = Closed \<and>
   read (Some 2) fresh_camera = Some (Raises CameraStateError, fresh_camera) \<and>
   reachable (opened_camera live_handle) \<and> lifecycle_of (opened_camera live_handle) = OpenIdle \<and>
   read None (opened_camera live_handle) = Some (Raises CameraStateError, opened_camera live_handle)"
proof -
  have r1: "reachable fresh_camera"
    unfolding fresh_camera_def by (rule reach_new)
  have l1: "lifecycle_of fresh_camera = Closed"
    by (simp add: lifecycle_of_def fresh_camera_def new_camera_def)
  have r2: "reachable (opened_camera live_handle)"
    unfolding opened_camera_def by (rule reach_open [OF r1])
  have l2: "lifecycle_of (opened_camera live_handle) = OpenIdle"
    by (simp add: lifecycle_of_def opened_camera_eq live_handle_def fresh_camera_def new_camera_def)
  from l1 have n1: "lifecycle_of fresh_camera \<noteq> OpenStreaming" by simp
  from l2 have n2: "lifecycle_of (opened_camera live_handle) \<noteq> OpenStreaming" by simp
  from read_outside_streaming_is_state_error [OF r1 n1, of "Some 2"]
    read_outside_streaming_is_state_error [OF r2 n2, of None] r1 l1 r2 l2
  show ?thesis by blast
qed

subsection \<open>Reading from a source that never produces a frame\<close>

lemma silent_pass:
  assumes "silent s"
  shows "\<exists>s1. read_body None st s = Inr s1 \<and> silent s1 \<and> retrievals s1 = Suc (retrievals s)
     \<and> is_streaming s1 = is_streaming s \<and> ticks s1 = ticks s"
proof -
  from assms obtain vc where vc: "capture_handle s = Some vc" "\<forall>k\<ge>cursor vc. feed vc k = None"
    by (auto simp: silent_def split: option.splits)
  let ?s1 = "s\<lparr>capture_handle := Some (vc\<lparr>cursor := Suc (cursor vc)\<rparr>)\<rparr>"
  have "read_body None st s = Inr ?s1"
    using vc by (simp add: read_body_def vc_read_def)
  moreover have "silent ?s1" "retrievals ?s1 = Suc (retrievals s)"
    using vc by (simp_all add: silent_def retrievals_def)
  ultimately show ?thesis by auto
qed

lemma read_loop_silent_aux:
  assumes "read_loop t st s = Some y"
  shows "\<not> (t = None \<and> silent s)"
proof (rule read_loop.raw_induct[where P = "\<lambda>t st s y. \<not> (t = None \<and> silent s)", OF _ assms])
  fix f t st s y
  assume IH: "\<And>t st s y. f t st s = Some y \<Longrightarrow> \<not> (t = None \<and> silent s)"
    and step: "(case read_body t st s of Inl r \<Rightarrow> Some r | Inr s1 \<Rightarrow> f t st s1) = Some y"
  show "\<not> (t = None \<and> silent s)"
  proof
    assume a: "t = None \<and> silent s"
    then obtain s1 where b: "read_body t st s = Inr s1" "silent s1"
      using silent_pass by blast
    with step have "f t st s1 = Some y" by simp
    from IH[OF this] b a show False by simp
  qed
qed

lemma read_loop_silent: "silent s \<Longrightarrow> read_loop None st s = None"
  using read_loop_silent_aux[of None st s] by (cases "read_loop None st s") auto

lemma read_passes_silent:
  "silent s \<Longrightarrow> \<exists>s1. read_passes n None st s = Inr s1 \<and> silent s1 \<and>
       retrievals s1 = retrievals s + n \<and> ticks s1 = ticks s"
proof (induction n arbitrary: s)
  case 0
  then show ?case by simp
next
  case (Suc n)
  from silent_pass[OF Suc.prems, of st] obtain s1 where
    s1: "read_body None st s = Inr s1" "silent s1" "retrievals s1 = Suc (retrievals s)" "ticks s1 = ticks s"
    by blast
  from Suc.IH[OF s1(2)] obtain s2 where
    "read_passes n None st s1 = Inr s2" "silent s2" "retrievals s2 = retrievals s1 + n" "ticks s2 = ticks s1"
    by blast
  with s1 show ?case by simp
qed

lemma silent_monotonic: "silent s \<Longrightarrow> silent (snd (monotonic s))"
  by (simp add: silent_def monotonic_def)

text \<open>
  Claim C2, amended. When \<^verbatim>\<open>read\<close> is called with the timeout given as
  \<^verbatim>\<open>None\<close> on a streaming driver whose source never produces a frame, the call
  never returns, so it signals no timeout, and it retries the capture primitive without
  end: after any number \<open>n\<close> of passes the loop is still running and has made \<open>n\<close>
  retrievals. A call that leaves the timeout out is a call with the default timeout of
  two seconds.
\<close>

theorem read_without_timeout_never_returns:
  assumes "is_streaming s" and "silent s"
  shows "read None s = None \<and>
         (\<forall>n. \<exists>s1. read_passes n None (fst (monotonic s)) (snd (monotonic s)) = Inr s1 \<and>
                    retrievals s1 = retrievals s + n) \<and>
         read_default s = read (Some 2) s"
proof -
  from assms(2) obtain vc where h: "capture_handle s = Some vc"
    by (auto simp: silent_def split: option.splits)
  have sm: "silent (snd (monotonic s))"
    using assms(2) by (rule silent_monotonic)
  have "read None s = read_loop None (fst (monotonic s)) (snd (monotonic s))"
    using assms(1) h by (simp add: read_def split_beta)
  then have a: "read None s = None"
    using read_loop_silent[OF sm] by simp
  have r: "retrievals (snd (monotonic s)) = retrievals s"
    by (simp add: retrievals_def monotonic_def)
  have b: "\<exists>s1. read_passes n None (fst (monotonic s)) (snd (monotonic s)) = Inr s1 \<and>
                    retrievals s1 = retrievals s + n" for n
    using read_passes_silent[OF sm, of n "fst (monotonic s)"] r by auto
  from a b show ?thesis by (simp add: read_default_def)
qed

theorem read_without_timeout_never_returns_witness:
  "is_streaming (streaming_camera stalled_handle) \<and> silent (streaming_camera stalled_handle) \<and>
   read None (streaming_camera stalled_handle) = None"
proof -
  have h1: "is_streaming (streaming_camera stalled_handle)"
    by (simp add: streaming_camera_eq stalled_handle_def)
  have h2: "silent (streaming_camera stalled_handle)"
    by (simp add: streaming_camera_eq stalled_handle_def silent_def no_frames_def)
  from read_without_timeout_never_returns [OF h1 h2] h1 h2 show ?thesis by blast
qed

text \<open>
  With the timeout left out, the same source and a clock that has advanced three
  seconds at the first check, \<^verbatim>\<open>read\<close> does return: it raises the timeout after one
  retrieval.
\<close>

theorem read_default_times_out:
  "silent (streaming_camera stalled_handle) \<and>
   read_default (streaming_camera stalled_handle) =
     Some (Raises CameraTimeout,
           (streaming_camera stalled_handle)
             \<lparr>capture_handle := Some (stalled_handle\<lparr>cursor := 1\<rparr>), ticks := 2\<rparr>)"
proof -
  have h2: "silent (streaming_camera stalled_handle)"
    by (simp add: streaming_camera_eq stalled_handle_def silent_def no_frames_def)
  have "read_default (streaming_camera stalled_handle) =
     Some (Raises CameraTimeout,
           (streaming_camera stalled_handle)
             \<lparr>capture_handle := Some (stalled_handle\<lparr>cursor := 1\<rparr>), ticks := 2\<rparr>)"
    by (simp add: read_default_def read_def streaming_camera_eq stalled_handle_def fresh_camera_def
        new_camera_def monotonic_def read_loop.simps read_body_def vc_read_def no_frames_def slow_clock_def)
  with h2 show ?thesis by simp
qed

subsection \<open>The shape of the buffer\<close>














section \<open>The factory checks the key and the instance\<close>

text \<open>
  Claim C8. If the key does not resolve to a class (it has no dot, or the module or the
  attribute does not exist), \<^verbatim>\<open>create\<close> raises an exception that is none of the
  camera errors and constructs no object. Whatever \<^verbatim>\<open>create\<close> returns was
  constructed from a resolved key and is an instance of \<^verbatim>\<open>CameraInterface\<close>; a
  constructed object that is not such an instance is not returned, \<^verbatim>\<open>TypeError\<close>
  is raised instead.
\<close>

theorem create_checks_key_and_instance:
  "(resolve key env = None \<longrightarrow>
      (\<exists>e. create_from key env = (Raises e, []) \<and> \<not> is_camera_error e)) \<and>
   (\<forall>obj made. create_from key env = (Returns obj, made) \<longrightarrow>
      resolve key env \<noteq> None \<and> isinstance_CameraInterface obj \<and> made = [obj]) \<and>
   (\<forall>cls obj. resolve key env = Some cls \<and> cls CAMERA_HARDWARE_CONFIG = Returns obj \<and>
        \<not> isinstance_CameraInterface obj \<longrightarrow>
      create_from key env = (Raises TypeError, [obj]))"
proof -
  have a: "resolve key env = None \<longrightarrow>
      (\<exists>e. create_from key env = (Raises e, []) \<and> \<not> is_camera_error e)"
    by (auto simp: resolve_def create_from_def split: list.splits option.splits if_splits)
  have b: "\<forall>obj made. create_from key env = (Returns obj, made) \<longrightarrow>
      resolve key env \<noteq> None \<and> isinstance_CameraInterface obj \<and> made = [obj]"
    by (auto simp: resolve_def create_from_def
        split: list.splits option.splits if_splits outcome.splits)
  have c: "\<forall>cls obj. resolve key env = Some cls \<and> cls CAMERA_HARDWARE_CONFIG = Returns obj \<and>
        \<not> isinstance_CameraInterface obj \<longrightarrow>
      create_from key env = (Raises TypeError, [obj])"
    by (auto simp: resolve_def create_from_def
        split: list.splits option.splits if_splits outcome.splits)
  show ?thesis by (intro conjI a b c)
qed

theorem create_checks_key_and_instance_witness:
  "resolve mock_key (repo_modules slow_clock) = None \<and>
   (\<exists>e. create_from mock_key (repo_modules slow_clock) = (Raises e, []) \<and>
        \<not> is_camera_error e) \<and>
   create slow_clock = (Returns (CameraInstance fresh_camera), [CameraInstance fresh_camera]) \<and>
   isinstance_CameraInterface (CameraInstance fresh_camera) \<and>
   resolve recorder_key other_modules = Some Recorder_class \<and>
   create_from recorder_key other_modules = (Raises TypeError, [OtherInstance ''Recorder''])"
proof -
  have h1: "resolve mock_key (repo_modules slow_clock) = None"
    by (simp add: resolve_def rsplit_mock repo_modules_def)
  have h2: "create_from ACTIVE_CAMERA_DRIVER (repo_modules slow_clock) =
      (Returns (CameraInstance fresh_camera), [CameraInstance fresh_camera])"
    by (simp add: create_from_def rsplit_active repo_modules_def OpenCVCamera_class_def
        CAMERA_HARDWARE_CONFIG_def fresh_camera_def)
  have h3: "resolve recorder_key other_modules = Some Recorder_class \<and>
      Recorder_class CAMERA_HARDWARE_CONFIG = Returns (OtherInstance ''Recorder'') \<and>
      \<not> isinstance_CameraInterface (OtherInstance ''Recorder'')"
    by (simp add: resolve_def rsplit_recorder other_modules_def Recorder_class_def)
  from create_checks_key_and_instance [of mock_key "repo_modules slow_clock"] h1
  have w1: "\<exists>e. create_from mock_key (repo_modules slow_clock) = (Raises e, []) \<and>
        \<not> is_camera_error e"
    by blast
  from create_checks_key_and_instance [of ACTIVE_CAMERA_DRIVER "repo_modules slow_clock"] h2
  have w2: "isinstance_CameraInterface (CameraInstance fresh_camera)"
    by blast
  from create_checks_key_and_instance [of recorder_key other_modules] h3
  have w3: "create_from recorder_key other_modules = (Raises TypeError, [OtherInstance ''Recorder''])"
    by blast
  from h2 have c: "create slow_clock =
      (Returns (CameraInstance fresh_camera), [CameraInstance fresh_camera])"
    by (simp add: create_def)
  from h3 have r: "resolve recorder_key other_modules = Some Recorder_class" by simp
  show ?thesis by (intro conjI h1 w1 c w2 r w3)
qed

end
